theory Spec2Isabelle
  imports Main
begin

section \<open>Constants of sw.js\<close>

definition CACHE_NAME :: string where
  "CACHE_NAME = ''one-day-maid-v1''"

definition STATIC_CACHE_NAME :: string where
  "STATIC_CACHE_NAME = ''one-day-maid-static-v1''"

definition STATIC_FILES :: "string list" where
  "STATIC_FILES = [''/'', ''/index.html'', ''/styles.css'', ''/script.js'', ''/manifest.json'']"

definition NO_CACHE_FILES :: "string list" where
  "NO_CACHE_FILES = [''/index.html'', ''/script.js'', ''/styles.css'']"

section \<open>String operations used by the worker\<close>

text \<open>
  \<^verbatim>\<open>s.endsWith(t)\<close>: the last \<open>length t\<close> code units of \<open>s\<close> are \<open>t\<close>; false when
  \<open>t\<close> is longer than \<open>s\<close>.
\<close>

definition endsWith :: "string \<Rightarrow> string \<Rightarrow> bool" where
  "endsWith s t = (length t \<le> length s \<and> drop (length s - length t) s = t)"

text \<open>\<^verbatim>\<open>s.startsWith(t)\<close>, the test \<^verbatim>\<open>String.prototype.includes\<close> makes at each position.\<close>

definition startsWith :: "string \<Rightarrow> string \<Rightarrow> bool" where
  "startsWith s t = (take (length t) s = t)"

text \<open>\<^verbatim>\<open>s.includes(t)\<close>: \<open>t\<close> occurs in \<open>s\<close> at some position, searched from the left.\<close>

fun includes_str :: "string \<Rightarrow> string \<Rightarrow> bool" where
  "includes_str [] t = (t = [])"
| "includes_str (c # cs) t = (startsWith (c # cs) t \<or> includes_str cs t)"

section \<open>The helper shouldNotCache (sw.js, lines 123 to 125)\<close>

text \<open>
  \<^verbatim>\<open>NO_CACHE_FILES.some(file => pathname.endsWith(file) || pathname === file)\<close>.
  The result \<open>True\<close> selects the network-first branch of the router (always fresh), the
  result \<open>False\<close> the cache-first branch (cache preferred).
\<close>

definition shouldNotCache :: "string \<Rightarrow> bool" where
  "shouldNotCache pathname =
     list_ex (\<lambda>file. endsWith pathname file \<or> pathname = file) NO_CACHE_FILES"

section \<open>Host data: requests, responses, promises, cache storage\<close>

text \<open>
  A request as the handlers read it: \<^verbatim>\<open>request.method\<close> (the field \<open>http_method\<close>), \<^verbatim>\<open>request.url\<close>, and the two
  components \<^verbatim>\<open>new URL(request.url)\<close> yields, \<^verbatim>\<open>url.origin\<close> and \<^verbatim>\<open>url.pathname\<close>.
  The URL parser belongs to the host, so the parsed components are fields of the request.
\<close>

record request =
  http_method :: string
  url :: string
  url_origin :: string
  url_pathname :: string

record response =
  status :: nat
  type :: string
  body :: string

text \<open>A settled promise. A JavaScript value that may be \<^verbatim>\<open>undefined\<close> is an option.\<close>

datatype 'a promise = Fulfilled 'a | Rejected string

text \<open>Who asks the network: the router, the update notifier, or \<^verbatim>\<open>cache.addAll\<close>.\<close>

datatype caller = Router | Notifier | AddAll

text \<open>
  \<^verbatim>\<open>CacheStorage\<close>: named caches in creation order, each a list of request/response
  entries.
\<close>

type_synonym cache = "(request \<times> response) list"
type_synonym cache_storage = "(string \<times> cache) list"

text \<open>
  What the host decides: the worker's origin, the outcome of each network fetch (per
  caller, since the router and the notifier fetch independently), which
  \<^verbatim>\<open>caches.delete\<close> calls reject, and the connected clients.
\<close>

record host =
  location_origin :: string
  network :: "caller \<Rightarrow> request \<Rightarrow> response option promise"
  delete_rejects :: "string \<Rightarrow> bool"
  clients :: "string list"

text \<open>
  What the worker changes or causes: the cache storage, the network fetches it started,
  the names handed to \<^verbatim>\<open>caches.delete\<close>, the calls of \<^verbatim>\<open>self.skipWaiting()\<close> and
  \<^verbatim>\<open>self.clients.claim()\<close>, the messages posted to clients, the console, the
  promise given to \<^verbatim>\<open>event.respondWith\<close> for the fetch event being dispatched, the
  stop-immediate-propagation flag of that event, and the exceptions a listener threw.
\<close>

record worker =
  caches :: cache_storage
  fetched :: "(caller \<times> request) list"
  delete_requests :: "string list"
  skipWaiting_calls :: nat
  claim_calls :: nat
  posted :: "(string \<times> string) list"
  console :: "string list"
  responded :: "response option promise option"
  stop_immediate_propagation :: bool
  uncaught :: "string list"

section \<open>Host capabilities\<close>

text \<open>
  A listener is modelled with every promise it started already settled: a chain of
  \<^verbatim>\<open>then\<close> and \<^verbatim>\<open>catch\<close> becomes a case distinction on the settled promise, and the
  worker returned is the one reached when the chain has run to its end. The operations
  of the host that may fail here (a network fetch, \<^verbatim>\<open>cache.addAll\<close>,
  \<^verbatim>\<open>caches.delete\<close>) fail as the \<open>host\<close> record says; \<^verbatim>\<open>caches.open\<close>,
  \<^verbatim>\<open>caches.match\<close> and \<^verbatim>\<open>cache.put\<close> behave as an in-memory store.
\<close>

definition console_log :: "string \<Rightarrow> worker \<Rightarrow> worker" where
  "console_log msg w = w\<lparr>console := console w @ [msg]\<rparr>"

text \<open>\<^verbatim>\<open>fetch(request)\<close>: the call is recorded, the host settles it.\<close>

definition fetch :: "host \<Rightarrow> caller \<Rightarrow> request \<Rightarrow> worker \<Rightarrow> response option promise \<times> worker" where
  "fetch h who request w = (network h who request, w\<lparr>fetched := fetched w @ [(who, request)]\<rparr>)"

text \<open>
  \<^verbatim>\<open>caches.match(request)\<close>: the first cache, in creation order, with an entry for the
  request; \<^verbatim>\<open>undefined\<close> when there is none.
\<close>

fun caches_match :: "cache_storage \<Rightarrow> request \<Rightarrow> response option" where
  "caches_match [] request = None"
| "caches_match ((name, cache) # rest) request =
     (case map_of cache request of
        Some response \<Rightarrow> Some response
      | None \<Rightarrow> caches_match rest request)"

text \<open>\<^verbatim>\<open>caches.open(name)\<close> creates the cache when it is absent.\<close>

definition caches_open :: "string \<Rightarrow> cache_storage \<Rightarrow> cache_storage" where
  "caches_open name cs = (case map_of cs name of None \<Rightarrow> cs @ [(name, [])] | Some c \<Rightarrow> cs)"

text \<open>\<^verbatim>\<open>cache.put(request, response)\<close> replaces the entry of the request.\<close>

definition cache_put :: "cache \<Rightarrow> request \<Rightarrow> response \<Rightarrow> cache" where
  "cache_put c request response' = (request, response') # filter (\<lambda>kv. fst kv \<noteq> request) c"

definition caches_put :: "string \<Rightarrow> request \<Rightarrow> response \<Rightarrow> cache_storage \<Rightarrow> cache_storage" where
  "caches_put name request response' cs =
     map (\<lambda>nc. if fst nc = name then (fst nc, cache_put (snd nc) request response') else nc) cs"

text \<open>The entry of a request in the cache of a given name.\<close>

definition cache_entry :: "cache_storage \<Rightarrow> string \<Rightarrow> request \<Rightarrow> response option" where
  "cache_entry cs name request =
     (case map_of cs name of None \<Rightarrow> None | Some c \<Rightarrow> map_of c request)"

text \<open>
  \<^verbatim>\<open>caches.delete(name)\<close>: the request is recorded; the host either rejects, leaving
  the cache in place, or removes the cache and fulfils with whether it existed.
\<close>

definition caches_delete :: "host \<Rightarrow> string \<Rightarrow> worker \<Rightarrow> bool option promise \<times> worker" where
  "caches_delete h name w =
     (let w1 = w\<lparr>delete_requests := delete_requests w @ [name]\<rparr>
      in if delete_rejects h name then (Rejected ''delete failed'', w1)
         else (Fulfilled (Some (map_of (caches w1) name \<noteq> None)),
               w1\<lparr>caches := filter (\<lambda>nc. fst nc \<noteq> name) (caches w1)\<rparr>))"

text \<open>
  \<^verbatim>\<open>Promise.all\<close>: rejected as soon as one member is, fulfilled with all the values
  otherwise.
\<close>

fun promise_all :: "'a promise list \<Rightarrow> 'a list promise" where
  "promise_all [] = Fulfilled []"
| "promise_all (Rejected err # ps) = Rejected err"
| "promise_all (Fulfilled v # ps) =
     (case promise_all ps of Fulfilled vs \<Rightarrow> Fulfilled (v # vs) | Rejected err \<Rightarrow> Rejected err)"

text \<open>
  \<^verbatim>\<open>cache.addAll(paths)\<close>: one GET request per path, all fetched; when every fetch
  fulfils with an ok status (200 to 299) all responses are stored, otherwise the promise
  rejects and nothing is stored.
\<close>

definition mk_request :: "host \<Rightarrow> string \<Rightarrow> request" where
  "mk_request h path =
     \<lparr>http_method = ''GET'', url = location_origin h @ path,
      url_origin = location_origin h, url_pathname = path\<rparr>"

definition ok_response :: "response option promise \<Rightarrow> response option" where
  "ok_response p =
     (case p of
        Fulfilled (Some r) \<Rightarrow> if 200 \<le> status r \<and> status r \<le> 299 then Some r else None
      | Fulfilled None \<Rightarrow> None
      | Rejected err \<Rightarrow> None)"

fun put_all :: "string \<Rightarrow> (request \<times> response option) list \<Rightarrow> cache_storage \<Rightarrow> cache_storage" where
  "put_all name [] cs = cs"
| "put_all name ((q, Some r) # rest) cs = put_all name rest (caches_put name q r cs)"
| "put_all name ((q, None) # rest) cs = put_all name rest cs"

definition cache_addAll :: "host \<Rightarrow> string \<Rightarrow> string list \<Rightarrow> worker \<Rightarrow> unit promise \<times> worker" where
  "cache_addAll h name paths w =
     (let requests = map (mk_request h) paths;
          w1 = w\<lparr>fetched := fetched w @ map (Pair AddAll) requests\<rparr>;
          results = map (\<lambda>q. (q, ok_response (network h AddAll q))) requests
      in if list_all (\<lambda>qr. snd qr \<noteq> None) results
         then (Fulfilled (), w1\<lparr>caches := put_all name results (caches w1)\<rparr>)
         else (Rejected ''TypeError'', w1))"

text \<open>
  \<^verbatim>\<open>event.respondWith(p)\<close>: the first call on an event fixes its response and sets
  the event's stop-immediate-propagation flag, so that no later listener of the event
  is invoked; a call on an event that already has a response throws
  \<^verbatim>\<open>InvalidStateError\<close> (after its argument was evaluated).
\<close>

definition respondWith :: "response option promise \<Rightarrow> worker \<Rightarrow> worker" where
  "respondWith p w =
     (case responded w of
        None \<Rightarrow> w\<lparr>responded := Some p, stop_immediate_propagation := True\<rparr>
      | Some p0 \<Rightarrow> w\<lparr>uncaught := uncaught w @ [''InvalidStateError'']\<rparr>)"

text \<open>
  Event dispatch: the listeners are invoked in registration order, until one of them
  has set the stop-immediate-propagation flag.
\<close>

fun run_listeners :: "(worker \<Rightarrow> worker) list \<Rightarrow> worker \<Rightarrow> worker" where
  "run_listeners [] w = w"
| "run_listeners (listener # rest) w =
     (if stop_immediate_propagation w then w else run_listeners rest (listener w))"

section \<open>The install listener (sw.js, lines 21 to 37)\<close>

text \<open>
  The result is the promise handed to \<^verbatim>\<open>event.waitUntil\<close>, once settled, and the
  worker after it. The chain is open, addAll, then (skipWaiting), catch (log).
\<close>

definition install :: "host \<Rightarrow> worker \<Rightarrow> unit promise \<times> worker" where
  "install h w =
     (let w1 = console_log ''Service Worker: Installing...'' w;
          w2 = w1\<lparr>caches := caches_open STATIC_CACHE_NAME (caches w1)\<rparr>;
          w3 = console_log ''Service Worker: Caching essential files'' w2
      in case cache_addAll h STATIC_CACHE_NAME STATIC_FILES w3 of
           (Fulfilled u, w4) \<Rightarrow>
             (let w5 = console_log ''Service Worker: Installation complete'' w4
              in (Fulfilled (), w5\<lparr>skipWaiting_calls := Suc (skipWaiting_calls w5)\<rparr>))
         | (Rejected err, w4) \<Rightarrow>
             (Fulfilled (), console_log (''Service Worker: Installation failed '' @ err) w4))"

text \<open>
  The host's rule for the promise an install listener passes to \<^verbatim>\<open>event.waitUntil\<close>:
  the worker becomes installed (waiting) when the promise is fulfilled and is discarded,
  staying uninstalled, when it rejects.
\<close>

datatype lifecycle = UNINSTALLED | INSTALLING | INSTALLED | ACTIVATING | ACTIVE

definition after_install :: "unit promise \<Rightarrow> lifecycle" where
  "after_install p = (case p of Fulfilled u \<Rightarrow> INSTALLED | Rejected err \<Rightarrow> UNINSTALLED)"

section \<open>The activate listener (sw.js, lines 40 to 58)\<close>

text \<open>
  The test of line 47 is \<open>old_cache\<close>.
  \<^verbatim>\<open>cacheNames.map(cacheName => ...)\<close>: every name is visited; a name that differs from
  both current names is logged and handed to \<^verbatim>\<open>caches.delete\<close>, the callback returns
  \<^verbatim>\<open>undefined\<close> for the two current names.
\<close>

definition old_cache :: "string \<Rightarrow> bool" where
  "old_cache cacheName = (cacheName \<noteq> CACHE_NAME \<and> cacheName \<noteq> STATIC_CACHE_NAME)"

fun prune :: "host \<Rightarrow> string list \<Rightarrow> worker \<Rightarrow> bool option promise list \<times> worker" where
  "prune h [] w = ([], w)"
| "prune h (cacheName # rest) w =
     (if old_cache cacheName then
        (case caches_delete h cacheName
                (console_log (''Service Worker: Deleting old cache '' @ cacheName) w) of
           (p, w1) \<Rightarrow> (case prune h rest w1 of (ps, w2) \<Rightarrow> (p # ps, w2)))
      else (case prune h rest w of (ps, w2) \<Rightarrow> (Fulfilled None # ps, w2)))"

text \<open>
  The result is the promise handed to \<^verbatim>\<open>event.waitUntil\<close>: \<^verbatim>\<open>Promise.all\<close> of the
  deletions, then \<^verbatim>\<open>self.clients.claim()\<close>. There is no catch.
\<close>

definition activate :: "host \<Rightarrow> worker \<Rightarrow> unit promise \<times> worker" where
  "activate h w =
     (let w1 = console_log ''Service Worker: Activating...'' w;
          cacheNames = map fst (caches w1)
      in case prune h cacheNames w1 of
           (ps, w2) \<Rightarrow>
             (case promise_all ps of
                Fulfilled vs \<Rightarrow>
                  (let w3 = console_log ''Service Worker: Activation complete'' w2
                   in (Fulfilled (), w3\<lparr>claim_calls := Suc (claim_calls w3)\<rparr>))
              | Rejected err \<Rightarrow> (Rejected err, w2)))"

section \<open>The fetch listeners\<close>

text \<open>
  The router (sw.js, lines 61 to 120). Requests that are not GET or not same-origin are
  left alone. A path for which \<open>shouldNotCache\<close> holds is fetched, with
  \<^verbatim>\<open>caches.match\<close> as the fallback of a rejected fetch. Any other path is looked up
  first; on a miss it is fetched, and a response that is present, has status 200 and type
  \<^verbatim>\<open>basic\<close> is put into the cache \<open>CACHE_NAME\<close>.
\<close>

definition router :: "host \<Rightarrow> request \<Rightarrow> worker \<Rightarrow> worker" where
  "router h request w =
     (if http_method request \<noteq> ''GET'' then w
      else if url_origin request \<noteq> location_origin h then w
      else if shouldNotCache (url_pathname request) then
        (case fetch h Router request w of
           (Fulfilled response', w1) \<Rightarrow> respondWith (Fulfilled response') w1
         | (Rejected err, w1) \<Rightarrow> respondWith (Fulfilled (caches_match (caches w1) request)) w1)
      else
        (case caches_match (caches w) request of
           Some response' \<Rightarrow> respondWith (Fulfilled (Some response')) w
         | None \<Rightarrow>
             (case fetch h Router request w of
                (Rejected err, w1) \<Rightarrow> respondWith (Rejected err) w1
              | (Fulfilled None, w1) \<Rightarrow> respondWith (Fulfilled None) w1
              | (Fulfilled (Some fetchResponse), w1) \<Rightarrow>
                  (if status fetchResponse \<noteq> 200 \<or> type fetchResponse \<noteq> ''basic''
                   then respondWith (Fulfilled (Some fetchResponse)) w1
                   else
                     (let responseToCache = fetchResponse;
                          w2 = w1\<lparr>caches := caches_put CACHE_NAME request responseToCache
                                               (caches_open CACHE_NAME (caches w1))\<rparr>
                      in respondWith (Fulfilled (Some fetchResponse)) w2)))))"

text \<open>
  The update notifier (sw.js, lines 188 to 209), registered after the router. Its test
  reads only \<^verbatim>\<open>event.request.url\<close>.
\<close>

definition notifier_fires :: "host \<Rightarrow> request \<Rightarrow> bool" where
  "notifier_fires h request =
     (includes_str (url request) ''index.html'' \<or> url request = location_origin h @ ''/'')"

definition notifier :: "host \<Rightarrow> request \<Rightarrow> worker \<Rightarrow> worker" where
  "notifier h request w =
     (if notifier_fires h request then
        (case fetch h Notifier request w of
           (Fulfilled response', w1) \<Rightarrow>
             respondWith (Fulfilled response')
               (w1\<lparr>posted := posted w1 @ map (\<lambda>client. (client, ''UPDATE_AVAILABLE'')) (clients h)\<rparr>)
         | (Rejected err, w1) \<Rightarrow> respondWith (Fulfilled (caches_match (caches w1) request)) w1)
      else w)"

text \<open>
  One fetch event: no response chosen yet and no flag set, then the two listeners in
  registration order, the router (line 61) before the update notifier (line 188).
\<close>

definition new_event :: "worker \<Rightarrow> worker" where
  "new_event w = w\<lparr>responded := None, stop_immediate_propagation := False\<rparr>"

definition dispatch_fetch :: "host \<Rightarrow> request \<Rightarrow> worker \<Rightarrow> worker" where
  "dispatch_fetch h request w =
     run_listeners [router h request, notifier h request] (new_event w)"

section \<open>Settled promises\<close>

fun rejected :: "'a promise \<Rightarrow> bool" where
  "rejected (Rejected err) = True"
| "rejected (Fulfilled v) = False"

section \<open>Example hosts and workers\<close>

text \<open>A host on which every fetch returns a 200 basic response and no deletion rejects.\<close>

definition quiet_host :: host where
  "quiet_host =
     \<lparr>location_origin = ''https://maid.example'',
      network = (\<lambda>who q. Fulfilled (Some \<lparr>status = 200, type = ''basic'', body = url q\<rparr>)),
      delete_rejects = (\<lambda>name. False),
      clients = [''tab-1'']\<rparr>"

text \<open>The same host, except that deleting the cache \<^verbatim>\<open>old-cache-v0\<close> rejects.\<close>

definition stubborn_host :: host where
  "stubborn_host = quiet_host\<lparr>delete_rejects := (\<lambda>name. name = ''old-cache-v0'')\<rparr>"

text \<open>The same host, except that \<^verbatim>\<open>/manifest.json\<close> cannot be fetched.\<close>

definition offline_manifest_host :: host where
  "offline_manifest_host =
     quiet_host\<lparr>network := (\<lambda>who q. if url_pathname q = ''/manifest.json''
        then Rejected ''TypeError: Failed to fetch''
        else Fulfilled (Some \<lparr>status = 200, type = ''basic'', body = url q\<rparr>))\<rparr>"

definition fresh_worker :: worker where
  "fresh_worker =
     \<lparr>caches = [], fetched = [], delete_requests = [], skipWaiting_calls = 0,
      claim_calls = 0, posted = [], console = [], responded = None,
      stop_immediate_propagation = False, uncaught = []\<rparr>"

definition three_caches :: cache_storage where
  "three_caches = [(''one-day-maid-v1'', []), (''one-day-maid-static-v1'', []), (''old-cache-v0'', [])]"

definition four_caches :: cache_storage where
  "four_caches = three_caches @ [(''older-cache'', [])]"

text \<open>Same-origin GET requests of the application, and a cross-origin POST.\<close>

definition icon_request :: request where
  "icon_request = mk_request quiet_host ''/icon-192.png''"

definition root_request :: request where
  "root_request = mk_request quiet_host ''/''"

definition script_request :: request where
  "script_request = mk_request quiet_host ''/script.js''"

definition tracking_request :: request where
  "tracking_request =
     \<lparr>http_method = ''POST'', url = ''https://cdn.example/log?from=index.html'',
      url_origin = ''https://cdn.example'', url_pathname = ''/log''\<rparr>"

text \<open>A host on which every fetch returns 404.\<close>

definition not_found_host :: host where
  "not_found_host =
     quiet_host\<lparr>network := (\<lambda>who q. Fulfilled (Some \<lparr>status = 404, type = ''basic'', body = []\<rparr>))\<rparr>"

text \<open>The responses of \<open>quiet_host\<close> to the example requests, and the 404.\<close>

definition icon_response :: response where
  "icon_response = \<lparr>status = 200, type = ''basic'', body = ''https://maid.example/icon-192.png''\<rparr>"

definition root_response :: response where
  "root_response = \<lparr>status = 200, type = ''basic'', body = ''https://maid.example/''\<rparr>"

definition script_response :: response where
  "script_response = \<lparr>status = 200, type = ''basic'', body = ''https://maid.example/script.js''\<rparr>"

definition not_found_response :: response where
  "not_found_response = \<lparr>status = 404, type = ''basic'', body = []\<rparr>"

text \<open>The worker after a successful install.\<close>

definition installed_worker :: worker where
  "installed_worker = snd (install quiet_host fresh_worker)"

section \<open>Facts about the string operations\<close>

lemma endsWith_iff: "endsWith s t \<longleftrightarrow> (\<exists>p. s = p @ t)"
proof
  assume h: "endsWith s t"
  have "s = take (length s - length t) s @ drop (length s - length t) s"
    by simp
  with h have "s = take (length s - length t) s @ t"
    by (simp add: endsWith_def)
  then show "\<exists>p. s = p @ t" ..
next
  assume "\<exists>p. s = p @ t"
  then obtain p where "s = p @ t" ..
  then show "endsWith s t"
    by (simp add: endsWith_def)
qed



section \<open>Request classification\<close>

text \<open>
  C1 (as amended). A path takes the network-first branch exactly when it ends with one
  of the three entries of \<open>NO_CACHE_FILES\<close>; every entry itself does, and so does every
  longer path with such an entry as its suffix.
\<close>

theorem shouldNotCache_suffix:
  "(shouldNotCache p \<longleftrightarrow> (\<exists>pre. p = pre @ ''/index.html'' \<or> p = pre @ ''/script.js''
        \<or> p = pre @ ''/styles.css''))
   \<and> shouldNotCache ''/index.html'' \<and> shouldNotCache ''/script.js''
   \<and> shouldNotCache ''/styles.css''"
proof -
  have a: "shouldNotCache p \<longleftrightarrow> (\<exists>pre. p = pre @ ''/index.html'' \<or> p = pre @ ''/script.js''
        \<or> p = pre @ ''/styles.css'')"
  proof -
    have self: "\<And>f. p = f \<Longrightarrow> \<exists>pre. p = pre @ f"
      by (metis append_Nil)
    show ?thesis
      unfolding shouldNotCache_def NO_CACHE_FILES_def
      by (simp only: list_ex_Cons_iff list_ex_Nil_iff endsWith_iff) (use self in blast)
  qed
  have b: "shouldNotCache ''/index.html''" "shouldNotCache ''/script.js''"
    "shouldNotCache ''/styles.css''"
    by (simp_all add: shouldNotCache_def NO_CACHE_FILES_def)
  from a b show ?thesis by blast
qed

theorem shouldNotCache_suffix_witness:
  "shouldNotCache ''/app/index.html'' \<and> \<not> shouldNotCache ''/icon-192.png''"
proof -
  have "''/app/index.html'' = ''/app'' @ ''/index.html''" by simp
  then have "shouldNotCache ''/app/index.html''"
    using shouldNotCache_suffix [of "''/app/index.html''"] by blast
  moreover have "\<not> shouldNotCache ''/icon-192.png''"
    by (simp add: shouldNotCache_def NO_CACHE_FILES_def endsWith_def)
  ultimately show ?thesis by simp
qed

text \<open>
  The path \<^verbatim>\<open>/app/index.html\<close> is not a member of \<open>NO_CACHE_FILES\<close>, yet it is
  classified always-fresh.
\<close>

theorem shouldNotCache_member_counterexample:
  "\<not> (shouldNotCache ''/app/index.html'' \<longleftrightarrow> ''/app/index.html'' \<in> set NO_CACHE_FILES)"
  by (simp add: shouldNotCache_def NO_CACHE_FILES_def endsWith_def)

section \<open>Facts about activation\<close>

lemma console_log_fields [simp]:
  "caches (console_log m w) = caches w"
  "fetched (console_log m w) = fetched w"
  "delete_requests (console_log m w) = delete_requests w"
  "skipWaiting_calls (console_log m w) = skipWaiting_calls w"
  "claim_calls (console_log m w) = claim_calls w"
  "responded (console_log m w) = responded w"
  by (simp_all add: console_log_def)

lemma prune_caches:
  "caches (snd (prune h ns w)) =
     filter (\<lambda>nc. \<not> (fst nc \<in> set ns \<and> old_cache (fst nc) \<and> \<not> delete_rejects h (fst nc))) (caches w)"
proof (induction ns arbitrary: w)
  case Nil
  show ?case by simp
next
  case (Cons n ns)
  show ?case
    by (auto simp: Cons.IH caches_delete_def Let_def split_beta intro!: filter_cong)
qed

lemma prune_delete_requests:
  "delete_requests (snd (prune h ns w)) = delete_requests w @ filter old_cache ns"
proof (induction ns arbitrary: w)
  case Nil
  show ?case by simp
next
  case (Cons n ns)
  show ?case
    by (simp add: Cons.IH caches_delete_def Let_def split_beta)
qed

lemma prune_claim_calls:
  "claim_calls (snd (prune h ns w)) = claim_calls w"
proof (induction ns arbitrary: w)
  case Nil
  show ?case by simp
next
  case (Cons n ns)
  show ?case
    by (simp add: Cons.IH caches_delete_def Let_def split_beta)
qed

lemma rejected_promise_all: "rejected (promise_all ps) = list_ex rejected ps"
proof (induction ps)
  case Nil
  show ?case by simp
next
  case (Cons p ps)
  then show ?case
    by (cases p; cases "promise_all ps") simp_all
qed

lemma prune_rejected:
  "list_ex rejected (fst (prune h ns w)) = list_ex (\<lambda>n. old_cache n \<and> delete_rejects h n) ns"
proof (induction ns arbitrary: w)
  case Nil
  show ?case by simp
next
  case (Cons n ns)
  show ?case
    by (simp add: Cons.IH caches_delete_def Let_def split_beta)
qed

lemma activate_caches:
  "caches (snd (activate h w)) =
     filter (\<lambda>nc. fst nc = CACHE_NAME \<or> fst nc = STATIC_CACHE_NAME \<or> delete_rejects h (fst nc)) (caches w)"
proof -
  have "caches (snd (activate h w)) = caches (snd (prune h (map fst (caches w)) (console_log ''Service Worker: Activating...'' w)))"
    by (simp add: activate_def Let_def split_beta split: promise.splits)
  also have "\<dots> = filter (\<lambda>nc. \<not> (fst nc \<in> set (map fst (caches w)) \<and> old_cache (fst nc) \<and> \<not> delete_rejects h (fst nc))) (caches w)"
    by (simp only: prune_caches console_log_fields)
  also have "\<dots> = filter (\<lambda>nc. fst nc = CACHE_NAME \<or> fst nc = STATIC_CACHE_NAME \<or> delete_rejects h (fst nc)) (caches w)"
    by (rule filter_cong) (auto simp: old_cache_def)
  finally show ?thesis .
qed

lemma activate_delete_requests:
  "delete_requests (snd (activate h w)) = delete_requests w @ filter old_cache (map fst (caches w))"
  by (simp add: activate_def Let_def split_beta prune_delete_requests split: promise.splits)

lemma activate_rejected:
  "rejected (fst (activate h w)) = list_ex (\<lambda>n. old_cache n \<and> delete_rejects h n) (map fst (caches w))"
proof -
  let ?w1 = "console_log ''Service Worker: Activating...'' w"
  let ?ps = "fst (prune h (map fst (caches w)) ?w1)"
  have "rejected (fst (activate h w)) = rejected (promise_all ?ps)"
    by (simp add: activate_def Let_def split_beta split: promise.splits)
  then show ?thesis
    by (simp only: rejected_promise_all prune_rejected)
qed

lemma activate_claim_calls:
  "claim_calls (snd (activate h w)) =
     (if rejected (fst (activate h w)) then claim_calls w else Suc (claim_calls w))"
  by (simp add: activate_def Let_def split_beta prune_claim_calls split: promise.splits)

section \<open>Activation\<close>

text \<open>
  C8. Activation hands to \<^verbatim>\<open>caches.delete\<close> exactly the cache names that differ from
  both \<open>CACHE_NAME\<close> and \<open>STATIC_CACHE_NAME\<close>, in the order of \<^verbatim>\<open>caches.keys()\<close>, and
  never one of the two current names; afterwards the storage holds the two current
  caches, untouched, and of the old ones only those whose deletion the host rejected.
\<close>

theorem activate_deletes_old_caches:
  "delete_requests (snd (activate h w))
     = delete_requests w @ filter (\<lambda>n. n \<noteq> CACHE_NAME \<and> n \<noteq> STATIC_CACHE_NAME) (map fst (caches w))
   \<and> caches (snd (activate h w))
     = filter (\<lambda>nc. fst nc = CACHE_NAME \<or> fst nc = STATIC_CACHE_NAME \<or> delete_rejects h (fst nc))
         (caches w)"
proof -
  have "old_cache = (\<lambda>n. n \<noteq> CACHE_NAME \<and> n \<noteq> STATIC_CACHE_NAME)"
    by (rule ext) (simp add: old_cache_def)
  then show ?thesis
    using activate_delete_requests [of h w] activate_caches [of h w] by simp
qed

text \<open>
  The scenario of the specification: of the names \<^verbatim>\<open>one-day-maid-v1\<close>,
  \<^verbatim>\<open>one-day-maid-static-v1\<close> and \<^verbatim>\<open>old-cache-v0\<close> only the last is deleted.
\<close>

theorem activate_deletes_old_caches_witness:
  "delete_requests (snd (activate quiet_host (fresh_worker\<lparr>caches := three_caches\<rparr>)))
     = [''old-cache-v0'']
   \<and> map fst (caches (snd (activate quiet_host (fresh_worker\<lparr>caches := three_caches\<rparr>))))
     = [''one-day-maid-v1'', ''one-day-maid-static-v1'']"
  using activate_deletes_old_caches [of quiet_host "fresh_worker\<lparr>caches := three_caches\<rparr>"]
  by (simp add: quiet_host_def fresh_worker_def three_caches_def CACHE_NAME_def
      STATIC_CACHE_NAME_def)

text \<open>
  C9. Activating a second time, on the same host, leaves the cache storage (names and
  contents) as the first activation left it.
\<close>

theorem activate_idempotent:
  "caches (snd (activate h (snd (activate h w)))) = caches (snd (activate h w))
   \<and> set (map fst (caches (snd (activate h (snd (activate h w))))))
     = set (map fst (caches (snd (activate h w))))"
proof -
  have "caches (snd (activate h (snd (activate h w)))) = caches (snd (activate h w))"
    by (simp add: activate_caches)
  then show ?thesis by simp
qed

theorem activate_idempotent_witness:
  "map fst (caches (snd (activate stubborn_host
       (snd (activate stubborn_host (fresh_worker\<lparr>caches := four_caches\<rparr>))))))
     = [''one-day-maid-v1'', ''one-day-maid-static-v1'', ''old-cache-v0'']"
proof -
  have "caches (snd (activate stubborn_host (fresh_worker\<lparr>caches := four_caches\<rparr>)))
      = three_caches"
    by (simp add: activate_caches stubborn_host_def quiet_host_def fresh_worker_def
        four_caches_def three_caches_def CACHE_NAME_def STATIC_CACHE_NAME_def)
  with activate_idempotent [of stubborn_host "fresh_worker\<lparr>caches := four_caches\<rparr>"]
  show ?thesis by (simp add: three_caches_def)
qed

text \<open>
  C3 (as amended). Every old cache is handed to \<^verbatim>\<open>caches.delete\<close> whatever happens
  to the others, and every old cache whose own deletion does not reject is gone
  afterwards. The promise given to \<^verbatim>\<open>waitUntil\<close> rejects exactly when the deletion of
  some old cache rejects, and \<^verbatim>\<open>clients.claim()\<close> is called exactly when none does.
\<close>

theorem activate_claims_unless_rejected:
  "delete_requests (snd (activate h w)) = delete_requests w @ filter old_cache (map fst (caches w))
   \<and> caches (snd (activate h w))
     = filter (\<lambda>nc. \<not> (old_cache (fst nc) \<and> \<not> delete_rejects h (fst nc))) (caches w)
   \<and> rejected (fst (activate h w))
     = list_ex (\<lambda>n. old_cache n \<and> delete_rejects h n) (map fst (caches w))
   \<and> claim_calls (snd (activate h w))
     = (if list_ex (\<lambda>n. old_cache n \<and> delete_rejects h n) (map fst (caches w))
        then claim_calls w else Suc (claim_calls w))"
proof -
  have "caches (snd (activate h w))
     = filter (\<lambda>nc. \<not> (old_cache (fst nc) \<and> \<not> delete_rejects h (fst nc))) (caches w)"
    unfolding activate_caches by (rule filter_cong) (auto simp: old_cache_def)
  moreover have "claim_calls (snd (activate h w))
     = (if list_ex (\<lambda>n. old_cache n \<and> delete_rejects h n) (map fst (caches w))
        then claim_calls w else Suc (claim_calls w))"
    by (simp only: activate_claim_calls activate_rejected)
  ultimately show ?thesis
    by (simp only: activate_delete_requests activate_rejected simp_thms)
qed

theorem activate_claims_unless_rejected_witness:
  "claim_calls (snd (activate quiet_host (fresh_worker\<lparr>caches := four_caches\<rparr>))) = 1
   \<and> map fst (caches (snd (activate quiet_host (fresh_worker\<lparr>caches := four_caches\<rparr>))))
     = [''one-day-maid-v1'', ''one-day-maid-static-v1'']
   \<and> \<not> rejected (fst (activate quiet_host (fresh_worker\<lparr>caches := four_caches\<rparr>)))"
  using activate_claims_unless_rejected [of quiet_host "fresh_worker\<lparr>caches := four_caches\<rparr>"]
  by (simp add: quiet_host_def fresh_worker_def four_caches_def three_caches_def old_cache_def
      CACHE_NAME_def STATIC_CACHE_NAME_def)

text \<open>
  When deleting \<^verbatim>\<open>old-cache-v0\<close> rejects, the other old cache is still deleted, but
  the activation promise rejects and \<^verbatim>\<open>clients.claim()\<close> is never called.
\<close>

theorem activate_claim_counterexample:
  "delete_rejects stubborn_host ''old-cache-v0''
   \<and> map fst (caches (snd (activate stubborn_host (fresh_worker\<lparr>caches := four_caches\<rparr>))))
     = [''one-day-maid-v1'', ''one-day-maid-static-v1'', ''old-cache-v0'']
   \<and> fst (activate stubborn_host (fresh_worker\<lparr>caches := four_caches\<rparr>))
     = Rejected ''delete failed''
   \<and> claim_calls (snd (activate stubborn_host (fresh_worker\<lparr>caches := four_caches\<rparr>))) = 0"
  by (simp add: activate_def caches_delete_def console_log_def old_cache_def Let_def
      stubborn_host_def quiet_host_def fresh_worker_def four_caches_def three_caches_def
      CACHE_NAME_def STATIC_CACHE_NAME_def)

section \<open>Facts about the fetch listeners and the examples\<close>

lemma respondWith_fields [simp]:
  "caches (respondWith p w) = caches w"
  "fetched (respondWith p w) = fetched w"
  "posted (respondWith p w) = posted w"
  by (simp_all add: respondWith_def split: option.splits)

lemma respondWith_first [simp]:
  "responded w = None \<Longrightarrow> responded (respondWith p w) = Some p"
  by (simp add: respondWith_def)

lemma respondWith_stops [simp]:
  "responded w = None \<Longrightarrow> stop_immediate_propagation (respondWith p w)"
  by (simp add: respondWith_def)

lemma new_event_fields [simp]:
  "responded (new_event w) = None"
  "\<not> stop_immediate_propagation (new_event w)"
  "caches (new_event w) = caches w"
  "fetched (new_event w) = fetched w"
  "posted (new_event w) = posted w"
  by (simp_all add: new_event_def)

lemma notifier_caches [simp]: "caches (notifier h request w) = caches w"
  by (simp add: notifier_def fetch_def split: promise.splits)




lemma router_passes:
  "http_method request \<noteq> ''GET'' \<or> url_origin request \<noteq> location_origin h \<Longrightarrow>
     router h request w = w"
  by (auto simp: router_def)

lemma router_answers:
  "http_method request = ''GET'' \<Longrightarrow> url_origin request = location_origin h \<Longrightarrow>
     responded w = None \<Longrightarrow> stop_immediate_propagation (router h request w)"
  by (simp add: router_def fetch_def Let_def split: promise.splits option.splits)

lemma router_posted [simp]: "posted (router h request w) = posted w"
  by (simp add: router_def fetch_def Let_def split: promise.splits option.splits)


lemma dispatch_answered:
  "http_method request = ''GET'' \<Longrightarrow> url_origin request = location_origin h \<Longrightarrow>
     dispatch_fetch h request w = router h request (new_event w)"
  by (simp add: dispatch_fetch_def router_answers)

lemma dispatch_passed:
  "http_method request \<noteq> ''GET'' \<or> url_origin request \<noteq> location_origin h \<Longrightarrow>
     dispatch_fetch h request w = notifier h request (new_event w)"
  by (simp add: dispatch_fetch_def router_passes)

lemma map_of_caches_put:
  "map_of (caches_put name q r cs) n
     = (if n = name then map_option (\<lambda>c. cache_put c q r) (map_of cs n) else map_of cs n)"
  by (induction cs) (auto simp: caches_put_def)

lemma map_of_caches_open:
  "map_of (caches_open name cs) n
     = (if n = name \<and> map_of cs name = None then Some [] else map_of cs n)"
  by (auto simp: caches_open_def map_add_def split: option.splits)

lemma cache_entry_put:
  "cache_entry (caches_put name q r (caches_open name cs)) name q = Some r"
  by (simp add: cache_entry_def map_of_caches_put map_of_caches_open cache_put_def
      split: option.splits)

lemma caches_match_put:
  "caches_match cs q = None \<Longrightarrow>
     caches_match (caches_put name q r (caches_open name cs)) q = Some r"
proof (induction cs)
  case Nil
  show ?case by (simp add: caches_open_def caches_put_def cache_put_def)
next
  case (Cons nc cs)
  obtain n c where nc: "nc = (n, c)" by (cases nc)
  from Cons.prems nc have c: "map_of c q = None" and rest: "caches_match cs q = None"
    by (auto split: option.splits)
  show ?case
  proof (cases "n = name")
    case True
    then show ?thesis
      using nc by (simp add: caches_open_def caches_put_def cache_put_def)
  next
    case False
    from Cons.IH [OF rest] False nc c show ?thesis
      by (auto simp: caches_open_def caches_put_def split: option.splits)
  qed
qed

lemma installed_caches:
  "caches installed_worker =
     [(''one-day-maid-static-v1'',
       map (\<lambda>p. (mk_request quiet_host p,
                 \<lparr>status = 200, type = ''basic'', body = ''https://maid.example'' @ p\<rparr>))
         [''/manifest.json'', ''/script.js'', ''/styles.css'', ''/index.html'', ''/''])]"
  by (simp add: installed_worker_def install_def cache_addAll_def Let_def console_log_def
      caches_open_def caches_put_def cache_put_def ok_response_def mk_request_def
      quiet_host_def fresh_worker_def STATIC_FILES_def STATIC_CACHE_NAME_def)

lemma example_requests [simp]:
  "http_method root_request = ''GET''" "url_origin root_request = ''https://maid.example''"
  "url_pathname root_request = ''/''" "url root_request = ''https://maid.example/''"
  "http_method icon_request = ''GET''" "url_origin icon_request = ''https://maid.example''"
  "url_pathname icon_request = ''/icon-192.png''"
  "url icon_request = ''https://maid.example/icon-192.png''"
  "http_method script_request = ''GET''" "url_origin script_request = ''https://maid.example''"
  "url_pathname script_request = ''/script.js''"
  "url script_request = ''https://maid.example/script.js''"
  by (simp_all add: root_request_def icon_request_def script_request_def mk_request_def
      quiet_host_def)

lemma example_hosts [simp]:
  "location_origin quiet_host = ''https://maid.example''"
  "location_origin not_found_host = ''https://maid.example''"
  "location_origin offline_manifest_host = ''https://maid.example''"
  "network quiet_host who q = Fulfilled (Some \<lparr>status = 200, type = ''basic'', body = url q\<rparr>)"
  "network not_found_host who q = Fulfilled (Some not_found_response)"
  by (simp_all add: quiet_host_def not_found_host_def offline_manifest_host_def
      not_found_response_def)

lemma example_paths [simp]:
  "\<not> shouldNotCache ''/''" "\<not> shouldNotCache ''/icon-192.png''"
  "shouldNotCache ''/script.js''" "\<not> shouldNotCache ''/log''"
  by (simp_all add: shouldNotCache_def NO_CACHE_FILES_def endsWith_def)

lemma installed_match_root:
  "caches_match (caches installed_worker) root_request = Some root_response"
  by (simp add: installed_caches root_request_def mk_request_def root_response_def)

lemma installed_match_icon:
  "caches_match (caches installed_worker) icon_request = None"
  by (simp add: installed_caches icon_request_def mk_request_def)


lemma tracking_fields [simp]:
  "http_method tracking_request = ''POST''" "url_pathname tracking_request = ''/log''"
  "url_origin tracking_request = ''https://cdn.example''"
  by (simp_all add: tracking_request_def)

lemma manifest_fails:
  "ok_response (network offline_manifest_host AddAll
      (mk_request offline_manifest_host ''/manifest.json'')) = None"
  by (simp add: offline_manifest_host_def quiet_host_def mk_request_def ok_response_def)

section \<open>Installation\<close>

text \<open>
  C2 (as amended). When some entry of \<open>STATIC_FILES\<close> cannot be fetched and stored,
  \<^verbatim>\<open>cache.addAll\<close> rejects, the rejection is caught and logged, \<^verbatim>\<open>skipWaiting\<close> is
  not called and nothing is added to the static cache; the promise given to
  \<^verbatim>\<open>waitUntil\<close> is fulfilled all the same, since the chain ends in a catch.
\<close>

theorem install_failure_caught:
  assumes "\<exists>path \<in> set STATIC_FILES. ok_response (network h AddAll (mk_request h path)) = None"
  shows "fst (install h w) = Fulfilled ()
    \<and> skipWaiting_calls (snd (install h w)) = skipWaiting_calls w
    \<and> caches (snd (install h w)) = caches_open STATIC_CACHE_NAME (caches w)
    \<and> console (snd (install h w)) = console w @
        [''Service Worker: Installing...'', ''Service Worker: Caching essential files'',
         ''Service Worker: Installation failed TypeError'']"
proof -
  let ?w3 = "console_log ''Service Worker: Caching essential files''
      ((console_log ''Service Worker: Installing...'' w)
        \<lparr>caches := caches_open STATIC_CACHE_NAME (caches w)\<rparr>)"
  from assms have "\<not> list_all (\<lambda>qr. snd qr \<noteq> None)
      (map (\<lambda>q. (q, ok_response (network h AddAll q))) (map (mk_request h) STATIC_FILES))"
    by (auto simp: list_all_iff)
  then have "cache_addAll h STATIC_CACHE_NAME STATIC_FILES ?w3
      = (Rejected ''TypeError'',
         ?w3\<lparr>fetched := fetched ?w3 @ map (Pair AddAll) (map (mk_request h) STATIC_FILES)\<rparr>)"
    by (simp add: cache_addAll_def Let_def)
  then show ?thesis
    by (simp add: install_def Let_def console_log_def)
qed

theorem install_failure_caught_witness:
  "fst (install offline_manifest_host fresh_worker) = Fulfilled ()
   \<and> skipWaiting_calls (snd (install offline_manifest_host fresh_worker)) = 0
   \<and> caches (snd (install offline_manifest_host fresh_worker)) = [(''one-day-maid-static-v1'', [])]"
proof -
  have "\<exists>path \<in> set STATIC_FILES. ok_response (network offline_manifest_host AddAll
      (mk_request offline_manifest_host path)) = None"
    using manifest_fails by (auto simp: STATIC_FILES_def)
  from install_failure_caught [OF this, of fresh_worker] show ?thesis
    by (simp add: fresh_worker_def caches_open_def STATIC_CACHE_NAME_def)
qed

text \<open>
  With \<^verbatim>\<open>/manifest.json\<close> unreachable, the promise given to \<^verbatim>\<open>waitUntil\<close> does not
  reject, and the host takes the worker as installed.
\<close>

theorem install_fulfils_counterexample:
  "ok_response (network offline_manifest_host AddAll
      (mk_request offline_manifest_host ''/manifest.json'')) = None
   \<and> ''/manifest.json'' \<in> set STATIC_FILES
   \<and> fst (install offline_manifest_host fresh_worker) = Fulfilled ()
   \<and> \<not> rejected (fst (install offline_manifest_host fresh_worker))
   \<and> after_install (fst (install offline_manifest_host fresh_worker)) = INSTALLED"
proof -
  have "fst (install offline_manifest_host fresh_worker) = Fulfilled ()"
    by (simp add: install_def Let_def split_beta split: promise.splits)
  with manifest_fails show ?thesis
    by (simp add: STATIC_FILES_def after_install_def)
qed

section \<open>The update notifier\<close>




section \<open>The router\<close>

text \<open>
  C5. For a same-origin GET request on the cache-first branch with a cache entry, the
  response of the event is the cached one, and no network fetch is started while the
  event is handled: the log of fetches is unchanged, and so is the cache storage.
\<close>

theorem cached_hit:
  assumes "http_method request = ''GET''" and "url_origin request = location_origin h"
    and "\<not> shouldNotCache (url_pathname request)"
    and "caches_match (caches w) request = Some r"
  shows "responded (dispatch_fetch h request w) = Some (Fulfilled (Some r))
    \<and> fetched (dispatch_fetch h request w) = fetched w
    \<and> caches (dispatch_fetch h request w) = caches w"
proof -
  let ?w0 = "new_event w"
  have d: "dispatch_fetch h request w = router h request ?w0"
    using assms(1,2) by (rule dispatch_answered)
  have r: "router h request ?w0 = respondWith (Fulfilled (Some r)) ?w0"
    using assms by (simp add: router_def)
  show ?thesis
    by (simp add: d r)
qed

text \<open>
  The root document \<^verbatim>\<open>/\<close> is cached by the install and is on the cache-first branch:
  it is answered from the cache without any fetch.
\<close>

theorem cached_hit_witness:
  "responded (dispatch_fetch quiet_host root_request installed_worker)
     = Some (Fulfilled (Some root_response))
   \<and> fetched (dispatch_fetch quiet_host root_request installed_worker)
     = fetched installed_worker
   \<and> caches (dispatch_fetch quiet_host root_request installed_worker)
     = caches installed_worker"
  using cached_hit [of root_request quiet_host installed_worker root_response]
    installed_match_root
  by simp

text \<open>
  C6. For a same-origin GET request on the cache-first branch without a cache entry,
  when the network returns a response with status 200 and type \<^verbatim>\<open>basic\<close>, that response
  is returned and a copy of it is the entry of the request in the cache \<open>CACHE_NAME\<close>,
  which a later \<^verbatim>\<open>caches.match\<close> of the request finds.
\<close>

theorem miss_stores:
  assumes "http_method request = ''GET''" and "url_origin request = location_origin h"
    and "\<not> shouldNotCache (url_pathname request)"
    and "caches_match (caches w) request = None"
    and "network h Router request = Fulfilled (Some r)"
    and "status r = 200" and "type r = ''basic''"
  shows "responded (dispatch_fetch h request w) = Some (Fulfilled (Some r))
    \<and> cache_entry (caches (dispatch_fetch h request w)) CACHE_NAME request = Some r
    \<and> caches_match (caches (dispatch_fetch h request w)) request = Some r"
proof -
  let ?w0 = "new_event w"
  let ?w1 = "?w0\<lparr>fetched := fetched ?w0 @ [(Router, request)]\<rparr>"
  let ?w2 = "?w1\<lparr>caches := caches_put CACHE_NAME request r (caches_open CACHE_NAME (caches ?w1))\<rparr>"
  have d: "dispatch_fetch h request w = router h request ?w0"
    using assms(1,2) by (rule dispatch_answered)
  have r: "router h request ?w0 = respondWith (Fulfilled (Some r)) ?w2"
    using assms by (simp add: router_def fetch_def Let_def)
  have "responded (dispatch_fetch h request w) = Some (Fulfilled (Some r))"
    by (simp add: d r)
  moreover have "caches (dispatch_fetch h request w)
      = caches_put CACHE_NAME request r (caches_open CACHE_NAME (caches w))"
    by (simp add: d r)
  ultimately show ?thesis
    using assms(4) by (simp add: cache_entry_put caches_match_put)
qed

theorem miss_stores_witness:
  "responded (dispatch_fetch quiet_host icon_request installed_worker)
     = Some (Fulfilled (Some icon_response))
   \<and> cache_entry (caches (dispatch_fetch quiet_host icon_request installed_worker))
       ''one-day-maid-v1'' icon_request = Some icon_response"
  using miss_stores [of icon_request quiet_host installed_worker icon_response]
    installed_match_icon
  by (simp add: icon_response_def CACHE_NAME_def)

text \<open>
  C7. For a request on the network-first branch no cache is written: the cache storage
  after the event is the storage before it. When the request is a same-origin GET and
  its fetch is fulfilled, the response of the event is the fetched one, unchanged.
\<close>

theorem fresh_not_stored:
  assumes "shouldNotCache (url_pathname request)"
  shows "caches (dispatch_fetch h request w) = caches w
    \<and> (http_method request = ''GET'' \<and> url_origin request = location_origin h
         \<and> network h Router request = Fulfilled r
       \<longrightarrow> responded (dispatch_fetch h request w) = Some (Fulfilled r))"
proof -
  let ?w0 = "new_event w"
  have rc: "caches (router h request ?w0) = caches w"
    using assms by (simp add: router_def fetch_def split: promise.splits)
  have c: "caches (dispatch_fetch h request w) = caches w"
  proof (cases "http_method request = ''GET'' \<and> url_origin request = location_origin h")
    case True
    then show ?thesis by (simp add: dispatch_answered rc)
  next
    case False
    then have "dispatch_fetch h request w = notifier h request ?w0"
      by (auto simp: dispatch_passed)
    then show ?thesis by simp
  qed
  have "responded (dispatch_fetch h request w) = Some (Fulfilled r)"
    if "http_method request = ''GET''" "url_origin request = location_origin h"
      "network h Router request = Fulfilled r"
  proof -
    have "responded (router h request ?w0) = Some (Fulfilled r)"
      using assms that by (simp add: router_def fetch_def)
    then show ?thesis
      using that by (simp add: dispatch_answered)
  qed
  with c show ?thesis by simp
qed

theorem fresh_not_stored_witness:
  "caches (dispatch_fetch quiet_host script_request installed_worker) = caches installed_worker
   \<and> responded (dispatch_fetch quiet_host script_request installed_worker)
       = Some (Fulfilled (Some script_response))"
  using fresh_not_stored [of script_request quiet_host installed_worker "Some script_response"]
  by (simp add: script_response_def)

text \<open>
  C10. On a cache-first miss, a fetched response that is absent, or has a status other
  than 200, or a type other than \<^verbatim>\<open>basic\<close>, is returned as it is and the cache storage
  is left unchanged.
\<close>

theorem miss_not_stored:
  assumes "http_method request = ''GET''" and "url_origin request = location_origin h"
    and "\<not> shouldNotCache (url_pathname request)"
    and "caches_match (caches w) request = None"
    and "network h Router request = Fulfilled fetchResponse"
    and "case fetchResponse of None \<Rightarrow> True
         | Some r \<Rightarrow> status r \<noteq> 200 \<or> type r \<noteq> ''basic''"
  shows "responded (dispatch_fetch h request w) = Some (Fulfilled fetchResponse)
    \<and> caches (dispatch_fetch h request w) = caches w"
proof -
  let ?w0 = "new_event w"
  let ?w1 = "?w0\<lparr>fetched := fetched ?w0 @ [(Router, request)]\<rparr>"
  have d: "dispatch_fetch h request w = router h request ?w0"
    using assms(1,2) by (rule dispatch_answered)
  have r: "router h request ?w0 = respondWith (Fulfilled fetchResponse) ?w1"
    using assms by (auto simp: router_def fetch_def split: option.splits)
  show ?thesis
    by (simp add: d r)
qed

theorem miss_not_stored_witness:
  "responded (dispatch_fetch not_found_host icon_request fresh_worker)
     = Some (Fulfilled (Some not_found_response))
   \<and> caches (dispatch_fetch not_found_host icon_request fresh_worker) = []"
  using miss_not_stored [of icon_request not_found_host fresh_worker "Some not_found_response"]
  by (simp add: fresh_worker_def not_found_response_def)

end
